theory Spec2Isabelle
  imports Complex_Main "HOL-Library.Char_ord" "HOL-Library.List_Lexorder"
begin

section \<open>Data model\<close>

text \<open>
  The program (\<^verbatim>\<open>data_logic.py\<close>, driven by \<^verbatim>\<open>app.py\<close>) works on pandas data frames read
  from a spreadsheet. A cell is a Python object: a missing value (\<^verbatim>\<open>NaN\<close>, \<^verbatim>\<open>None\<close> or
  \<^verbatim>\<open>NaT\<close>), a text, a whole number, or a timestamp (a point on the time line, as
  \<^verbatim>\<open>pd.Timestamp\<close> is). Binary floating-point numbers are outside the model.

  A data frame is its list of column names and its rows; every row carries its index
  label, which is the identity of the row, and its cells in column order. The column
  operations of pandas are modelled cell by cell, as their documentation states them;
  a column is looked up by name, and a name that is not a column raises \<^verbatim>\<open>KeyError\<close>.
\<close>

datatype cell = Missing | Str string | Num int | Stamp int

datatype error = KeyError string

type_synonym row = "nat \<times> cell list"

record table =
  columns :: "string list"
  rows :: "row list"

type_synonym grid = "cell list list"

text \<open>The cell of a row under a column name; a row shorter than the header is padded
  with missing values, as the reader does.\<close>

definition cell_of :: "string list \<Rightarrow> cell list \<Rightarrow> string \<Rightarrow> cell" where
  "cell_of cols cells c = (case map_of (zip cols cells) c of Some v \<Rightarrow> v | None \<Rightarrow> Missing)"

text \<open>\<^verbatim>\<open>df[c]\<close>: the column as a list of cells, one per row, or \<^verbatim>\<open>KeyError\<close>.\<close>

definition column :: "table \<Rightarrow> string \<Rightarrow> error + cell list" where
  "column df c =
     (if c \<in> set (columns df)
      then Inr (map (\<lambda>r. cell_of (columns df) (snd r) c) (rows df))
      else Inl (KeyError c))"

text \<open>\<^verbatim>\<open>df[mask]\<close>: the rows whose mask entry is true, labels kept.\<close>

definition select_rows :: "table \<Rightarrow> bool list \<Rightarrow> table" where
  "select_rows df sel = df\<lparr>rows := map fst (filter snd (zip (rows df) sel))\<rparr>"

text \<open>\<^verbatim>\<open>sub in s\<close> on Python strings: \<open>sub\<close> occurs in \<open>s\<close> as a contiguous piece.\<close>

fun startswith :: "string \<Rightarrow> string \<Rightarrow> bool" where
  "startswith s [] = True"
| "startswith [] (p # ps) = False"
| "startswith (c # cs) (p # ps) = (c = p \<and> startswith cs ps)"

fun str_in :: "string \<Rightarrow> string \<Rightarrow> bool" where
  "str_in sub [] = (sub = [])"
| "str_in sub (c # cs) = (startswith (c # cs) sub \<or> str_in sub cs)"

section \<open>TableLocator: \<^verbatim>\<open>find_table_starting_from_columns\<close>\<close>

text \<open>
  \<^verbatim>\<open>
  def find_table_starting_from_columns(excel_bytes, sheet_name, required_columns):
      sheet_data = pd.read_excel(excel_bytes, sheet_name=sheet_name, header=None)
      for row_index in range(sheet_data.shape[0]):
          if all(col in sheet_data.iloc[row_index, :].values for col in required_columns):
              table = pd.read_excel(excel_bytes, sheet_name=sheet_name, header=row_index)
              return table
      return None
  \<close>
  The spreadsheet reader is an external collaborator. Reading with \<^verbatim>\<open>header=None\<close> is the
  grid itself. Reading with \<^verbatim>\<open>header=i\<close> makes row \<open>i\<close> the header and the rows below it
  the body, labelled from 0; how the reader turns the header cells into column names
  (it renames empty and repeated cells) is the parameter \<open>header_names\<close>.
\<close>

definition row_has_all :: "string list \<Rightarrow> cell list \<Rightarrow> bool" where
  "row_has_all required_columns r = list_all (\<lambda>col. Str col \<in> set r) required_columns"

fun scan_rows :: "string list \<Rightarrow> nat \<Rightarrow> grid \<Rightarrow> nat option" where
  "scan_rows required_columns row_index [] = None"
| "scan_rows required_columns row_index (r # rs) =
     (if row_has_all required_columns r then Some row_index
      else scan_rows required_columns (Suc row_index) rs)"

definition read_excel_header :: "(cell list \<Rightarrow> string list) \<Rightarrow> grid \<Rightarrow> nat \<Rightarrow> table" where
  "read_excel_header header_names sheet_data i =
     \<lparr>columns = header_names (sheet_data ! i),
      rows = zip [0 ..< length sheet_data - Suc i] (drop (Suc i) sheet_data)\<rparr>"

definition find_table_starting_from_columns ::
  "(cell list \<Rightarrow> string list) \<Rightarrow> grid \<Rightarrow> string list \<Rightarrow> table option" where
  "find_table_starting_from_columns header_names sheet_data required_columns =
     (case scan_rows required_columns 0 sheet_data of
        None \<Rightarrow> None
      | Some row_index \<Rightarrow> Some (read_excel_header header_names sheet_data row_index))"

section \<open>Header normalization in \<^verbatim>\<open>app.py\<close>\<close>



section \<open>FilterEngine: \<^verbatim>\<open>apply_filters\<close>\<close>














section \<open>Aggregator: \<^verbatim>\<open>process_filtered_data\<close> and \<^verbatim>\<open>create_aggregated_data\<close>\<close>

text \<open>
  \<^verbatim>\<open>groupby("Naam")\<close> is called with the defaults of pandas, \<^verbatim>\<open>sort=True\<close> and
  \<^verbatim>\<open>dropna=True\<close>: the group keys are the distinct values of the column that are not
  missing, in ascending order. Texts are ordered as Python orders them (by character,
  a proper prefix first); where a column mixes kinds, numbers come before timestamps
  and these before texts.
\<close>

instantiation cell :: linorder
begin

fun less_eq_cell :: "cell \<Rightarrow> cell \<Rightarrow> bool" where
  "less_eq_cell (Num a) (Num b) = (a \<le> b)"
| "less_eq_cell (Num a) _ = True"
| "less_eq_cell (Stamp a) (Num b) = False"
| "less_eq_cell (Stamp a) (Stamp b) = (a \<le> b)"
| "less_eq_cell (Stamp a) _ = True"
| "less_eq_cell (Str a) (Str b) = (a \<le> b)"
| "less_eq_cell (Str a) Missing = True"
| "less_eq_cell (Str a) _ = False"
| "less_eq_cell Missing Missing = True"
| "less_eq_cell Missing _ = False"

definition less_cell :: "cell \<Rightarrow> cell \<Rightarrow> bool" where
  "less_cell x y = (x \<le> y \<and> \<not> y \<le> x)"

instance
proof
  fix x y z :: cell
  show "(x < y) = (x \<le> y \<and> \<not> y \<le> x)" by (simp add: less_cell_def)
  show "x \<le> x" by (cases x) simp_all
  show "x \<le> y \<Longrightarrow> y \<le> z \<Longrightarrow> x \<le> z" by (cases x; cases y; cases z) simp_all
  show "x \<le> y \<Longrightarrow> y \<le> x \<Longrightarrow> x = y" by (cases x; cases y) simp_all
  show "x \<le> y \<or> y \<le> x" by (cases x; cases y) auto
qed

end

text \<open>\<^verbatim>\<open>pd.unique\<close>: the distinct values in order of first appearance; a missing value
  counts as one value.\<close>

fun unique_from :: "'a list \<Rightarrow> 'a list \<Rightarrow> 'a list" where
  "unique_from seen [] = []"
| "unique_from seen (x # xs) =
     (if x \<in> set seen then unique_from seen xs else x # unique_from (x # seen) xs)"

definition unique :: "'a list \<Rightarrow> 'a list" where
  "unique xs = unique_from [] xs"

definition group_keys :: "cell list \<Rightarrow> cell list" where
  "group_keys col = sort (unique (filter (\<lambda>c. c \<noteq> Missing) col))"

text \<open>\<^verbatim>\<open>df[selected_cols]\<close>: the frame with these columns in this order.\<close>

definition project :: "table \<Rightarrow> string list \<Rightarrow> error + table" where
  "project df cs =
     (case filter (\<lambda>c. c \<notin> set (columns df)) cs of
        [] \<Rightarrow> Inr \<lparr>columns = cs,
                   rows = map (\<lambda>r. (fst r, map (cell_of (columns df) (snd r)) cs)) (rows df)\<rparr>
      | c # _ \<Rightarrow> Inl (KeyError c))"

text \<open>
  \<^verbatim>\<open>
  def process_filtered_data(df, selected_cols, per_naam=True):
      df_filtered = df[selected_cols].copy()
      if per_naam:
          grouped_dfs = {}
          combined_df = pd.DataFrame(columns=selected_cols)
          for name, group in df_filtered.groupby("Naam"):
              grouped_dfs[name] = group
              combined_df = pd.concat([combined_df, group], ignore_index=True)
          return combined_df, grouped_dfs
      else:
          return df_filtered, None
  \<close>
  The dictionary \<open>grouped_dfs\<close> is the list of its entries in insertion order.
\<close>

definition process_filtered_data ::
  "table \<Rightarrow> string list \<Rightarrow> bool \<Rightarrow> error + (table \<times> (cell \<times> table) list option)" where
  "process_filtered_data df selected_cols per_naam =
     (case project df selected_cols of
        Inl e \<Rightarrow> Inl e
      | Inr df_filtered \<Rightarrow>
          if per_naam
          then (case column df_filtered ''Naam'' of
                  Inl e \<Rightarrow> Inl e
                | Inr naam \<Rightarrow>
                    let grouped_dfs =
                          map (\<lambda>key. (key, select_rows df_filtered (map (\<lambda>c. c = key) naam)))
                            (group_keys naam);
                        body = concat (map (\<lambda>(key, grp). map snd (rows grp)) grouped_dfs);
                        combined_df = \<lparr>columns = selected_cols,
                                       rows = zip [0 ..< length body] body\<rparr>
                    in Inr (combined_df, Some grouped_dfs))
          else Inr (df_filtered, None))"


section \<open>ComparisonEngine: \<^verbatim>\<open>compare_tasks_grouped_by_name\<close>\<close>

text \<open>
  \<^verbatim>\<open>
  ob_col = next((col for col in current_df.columns if "Obligo extern formaa" in col), None)
  if not ob_col:
      ob_col = "OH-order"
  all_names = pd.unique(pd.concat([current_df["Naam"], previous_df["Naam"]]))
  comparison_data = []
  for name in all_names:
      current_tasks = current_df[current_df["Naam"] == name]
      prev_tasks = previous_df[previous_df["Naam"] == name]
      current_set = set(current_tasks[ob_col].dropna().astype(str))
      prev_set = set(prev_tasks[ob_col].dropna().astype(str))
      new_tasks = len(current_set - prev_set)
      old_tasks = len(current_set.intersection(prev_set))
      previous_total = len(prev_set)
      edited_tasks = len(prev_set - current_set)
      percentage = round((edited_tasks / previous_total * 100) if previous_total > 0 else 0, 1)
      row = {"Naam": name, "Aantal nieuwe taken": new_tasks, "Aantal oude taken": old_tasks,
             "Aantal taken vorige week": previous_total, "Aantal bewerkte taken": edited_tasks,
             "Percentage bewerkt": percentage,
             f"{ob_col} (oude taken)": ", ".join(current_set.intersection(prev_set))
                                       if current_set.intersection(prev_set) else ""}
      comparison_data.append(row)
  return pd.DataFrame(comparison_data)
  \<close>
  A Python set of texts is a list without repetitions; the order in which Python
  iterates a set is not specified, so nothing below depends on the order the model
  picks, except that the joined list of common identifiers is in some order.
  \<^verbatim>\<open>str\<close> of a whole number is its decimal numeral; \<^verbatim>\<open>str\<close> of a timestamp is the
  parameter \<open>stamp_str\<close>. The percentage is computed in exact rational arithmetic and
  rounded to one decimal, halves to the even neighbour, as \<^verbatim>\<open>round\<close> does.
\<close>

fun show_nat :: "nat \<Rightarrow> string" where
  "show_nat n =
     (if n < 10 then [''0123456789'' ! n]
      else show_nat (n div 10) @ [''0123456789'' ! (n mod 10)])"

declare show_nat.simps [simp del]

definition show_int :: "int \<Rightarrow> string" where
  "show_int i = (if i < 0 then CHR ''-'' # show_nat (nat (- i)) else show_nat (nat i))"

definition astype_str :: "(int \<Rightarrow> string) \<Rightarrow> cell \<Rightarrow> string" where
  "astype_str stamp_str c =
     (case c of Str s \<Rightarrow> s | Num i \<Rightarrow> show_int i | Stamp t \<Rightarrow> stamp_str t | Missing \<Rightarrow> ''nan'')"

definition dropna :: "cell list \<Rightarrow> cell list" where
  "dropna col = filter (\<lambda>c. c \<noteq> Missing) col"

text \<open>\<^verbatim>\<open>col == name\<close>: a missing value equals nothing, itself included.\<close>

definition eq_mask :: "cell list \<Rightarrow> cell \<Rightarrow> bool list" where
  "eq_mask col v = map (\<lambda>c. c \<noteq> Missing \<and> v \<noteq> Missing \<and> c = v) col"

fun join :: "string \<Rightarrow> string list \<Rightarrow> string" where
  "join sep [] = []"
| "join sep [x] = x"
| "join sep (x # y # ys) = x @ sep @ join sep (y # ys)"

definition py_round1 :: "rat \<Rightarrow> rat" where
  "py_round1 x =
     (let y = x * 10; f = \<lfloor>y\<rfloor>; d = y - of_int f
      in of_int (if d < 1 / 2 then f else if 1 / 2 < d then f + 1
                 else if even f then f else f + 1) / 10)"

definition select_ob_col :: "string list \<Rightarrow> string" where
  "select_ob_col cols =
     (case find (str_in ''Obligo extern formaa'') cols of
        None \<Rightarrow> ''OH-order''
      | Some col \<Rightarrow> if col = [] then ''OH-order'' else col)"

record comparison_row =
  cr_name :: cell
  cr_new_tasks :: nat
  cr_old_tasks :: nat
  cr_previous_total :: nat
  cr_edited_tasks :: nat
  cr_percentage :: rat
  cr_common :: string

definition id_set :: "(int \<Rightarrow> string) \<Rightarrow> cell list \<Rightarrow> string list" where
  "id_set stamp_str col = unique (map (astype_str stamp_str) (dropna col))"

definition compare_row ::
  "(int \<Rightarrow> string) \<Rightarrow> string \<Rightarrow> table \<Rightarrow> table \<Rightarrow> cell list \<Rightarrow> cell list \<Rightarrow> cell
     \<Rightarrow> error + comparison_row" where
  "compare_row stamp_str ob_col current_df previous_df cur_naam prev_naam name =
     (let current_tasks = select_rows current_df (eq_mask cur_naam name);
          prev_tasks = select_rows previous_df (eq_mask prev_naam name)
      in case column current_tasks ob_col of
           Inl e \<Rightarrow> Inl e
         | Inr cur_ids \<Rightarrow>
        (case column prev_tasks ob_col of
           Inl e \<Rightarrow> Inl e
         | Inr prev_ids \<Rightarrow>
             let current_set = id_set stamp_str cur_ids;
                 prev_set = id_set stamp_str prev_ids;
                 new_tasks = length (filter (\<lambda>i. i \<notin> set prev_set) current_set);
                 common = filter (\<lambda>i. i \<in> set prev_set) current_set;
                 old_tasks = length common;
                 previous_total = length prev_set;
                 edited_tasks = length (filter (\<lambda>i. i \<notin> set current_set) prev_set);
                 percentage = py_round1
                    (if previous_total > 0
                     then of_nat edited_tasks / of_nat previous_total * 100 else 0)
             in Inr \<lparr>cr_name = name, cr_new_tasks = new_tasks, cr_old_tasks = old_tasks,
                     cr_previous_total = previous_total, cr_edited_tasks = edited_tasks,
                     cr_percentage = percentage,
                     cr_common = (if common \<noteq> [] then join '', '' common else [])\<rparr>))"

fun compare_loop ::
  "(int \<Rightarrow> string) \<Rightarrow> string \<Rightarrow> table \<Rightarrow> table \<Rightarrow> cell list \<Rightarrow> cell list \<Rightarrow> cell list
     \<Rightarrow> error + comparison_row list" where
  "compare_loop stamp_str ob_col current_df previous_df cur_naam prev_naam [] = Inr []"
| "compare_loop stamp_str ob_col current_df previous_df cur_naam prev_naam (name # names) =
     (case compare_row stamp_str ob_col current_df previous_df cur_naam prev_naam name of
        Inl e \<Rightarrow> Inl e
      | Inr r \<Rightarrow>
         (case compare_loop stamp_str ob_col current_df previous_df cur_naam prev_naam names of
            Inl e \<Rightarrow> Inl e
          | Inr rs \<Rightarrow> Inr (r # rs)))"

definition compare_tasks_grouped_by_name ::
  "(int \<Rightarrow> string) \<Rightarrow> table \<Rightarrow> table \<Rightarrow> error + comparison_row list" where
  "compare_tasks_grouped_by_name stamp_str current_df previous_df =
     (let ob_col = select_ob_col (columns current_df)
      in case column current_df ''Naam'' of
           Inl e \<Rightarrow> Inl e
         | Inr cur_naam \<Rightarrow>
        (case column previous_df ''Naam'' of
           Inl e \<Rightarrow> Inl e
         | Inr prev_naam \<Rightarrow>
             compare_loop stamp_str ob_col current_df previous_df cur_naam prev_naam
               (unique (cur_naam @ prev_naam))))"

section \<open>Well-formed tables and the notions the statements use\<close>





text \<open>The assignee of a row: its cell under the column \<^verbatim>\<open>Naam\<close>.\<close>

definition naam :: "table \<Rightarrow> row \<Rightarrow> cell" where
  "naam df r = cell_of (columns df) (snd r) ''Naam''"


section \<open>Example inputs\<close>


definition text_names :: "cell list \<Rightarrow> string list" where
  "text_names header = map (\<lambda>c. case c of Str s \<Rightarrow> s | _ \<Rightarrow> []) header"

definition order_columns :: "string list" where
  "order_columns = [''Naam'', ''Status'', ''Verantw. Werkplek'', ''Leverdatum'',
                    ''Omschrijving middel'', ''OH-order'']"




definition sheet :: grid where
  "sheet = [[Str ''Rapport week 12'', Missing, Missing],
            [Str ''Naam'', Str ''Afdeling'', Missing],
            [Str ''Status'', Str ''Naam'', Str ''OH-order''],
            [Str ''OPEN'', Str ''Anna'', Num 102],
            [Str ''Naam'', Str ''Status'', Str ''Totaal'']]"

definition open_orders :: table where
  "open_orders = \<lparr>columns = order_columns,
     rows = [(0, [Str ''Piet'', Str ''VRIJ'', Str ''A-VKS-1'', Stamp 5, Str ''12w'', Num 101]),
             (1, [Str ''Anna'', Str ''OPEN'', Str ''VKS'', Stamp 7, Str ''12w-extra'', Num 102]),
             (2, [Missing, Str ''OPEN'', Str ''VKS'', Stamp 7, Missing, Num 103])]\<rparr>"

definition plain_stamp :: "int \<Rightarrow> string" where
  "plain_stamp t = show_int t"



definition obligo_orders :: table where
  "obligo_orders = \<lparr>columns = order_columns @ [''Obligo extern formaat''],
     rows = [(0, [Str ''Anna'', Str ''OPEN'', Str ''VKS'', Stamp 7, Missing, Num 102,
                  Str ''4500012345''])]\<rparr>"

definition obligo_none :: table where
  "obligo_none = \<lparr>columns = order_columns @ [''Obligo extern formaat''], rows = []\<rparr>"

definition last_week_none :: table where
  "last_week_none = \<lparr>columns = order_columns, rows = []\<rparr>"

definition last_week :: table where
  "last_week = \<lparr>columns = order_columns,
     rows = [(0, [Str ''Anna'', Str ''OPEN'', Str ''VKS'', Stamp 2, Missing, Num 102]),
             (1, [Str ''Anna'', Str ''OPEN'', Str ''VKS'', Stamp 2, Missing, Num 99]),
             (2, [Str ''Kees'', Str ''VRIJ'', Str ''VKS'', Stamp 1, Missing, Num 55])]\<rparr>"




section \<open>Properties of the locator\<close>

lemma row_has_all_iff: "row_has_all req r \<longleftrightarrow> (\<forall>c\<in>set req. Str c \<in> set r)"
  by (simp add: row_has_all_def list_all_iff)

lemma scan_rows_None: "scan_rows req k g = None \<longleftrightarrow> (\<forall>r\<in>set g. \<not> row_has_all req r)"
  by (induction g arbitrary: k) auto

lemma scan_rows_Some:
  "scan_rows req k g = Some n \<Longrightarrow>
     k \<le> n \<and> n - k < length g \<and> row_has_all req (g ! (n - k)) \<and>
     (\<forall>j < n - k. \<not> row_has_all req (g ! j))"
proof (induction g arbitrary: k)
  case Nil
  then show ?case by simp
next
  case (Cons r rs)
  show ?case
  proof (cases "row_has_all req r")
    case True
    with Cons.prems show ?thesis by simp
  next
    case False
    with Cons.prems have step: "scan_rows req (Suc k) rs = Some n" by simp
    from Cons.IH [OF step] have le: "Suc k \<le> n" and lt: "n - Suc k < length rs"
      and hit: "row_has_all req (rs ! (n - Suc k))"
      and before: "\<forall>j < n - Suc k. \<not> row_has_all req (rs ! j)" by auto
    from le have shift: "n - k = Suc (n - Suc k)" by arith
    have "\<forall>j < n - k. \<not> row_has_all req ((r # rs) ! j)"
    proof (intro allI impI)
      fix j assume "j < n - k"
      then show "\<not> row_has_all req ((r # rs) ! j)"
        using False before shift by (cases j) auto
    qed
    with le lt hit shift show ?thesis by simp
  qed
qed

lemma rows_read_excel_header:
  "map snd (rows (read_excel_header hn g i)) = drop (Suc i) g"
  by (simp add: read_excel_header_def)

text \<open>
  Claim C3. The locator scans the grid from the top. It returns nothing exactly when no
  row of the grid holds every required column name as a cell; otherwise the header is
  the topmost such row (no row above it holds all the names), the column names are the
  reader's names for that row, and the body is all the rows below it.
\<close>

theorem find_table_topmost_header:
  "(find_table_starting_from_columns hn g req = None \<longleftrightarrow>
      (\<forall>r\<in>set g. \<not> (\<forall>c\<in>set req. Str c \<in> set r))) \<and>
   (\<forall>t. find_table_starting_from_columns hn g req = Some t \<longrightarrow>
      (\<exists>i < length g.
         (\<forall>c\<in>set req. Str c \<in> set (g ! i)) \<and>
         (\<forall>j < i. \<not> (\<forall>c\<in>set req. Str c \<in> set (g ! j))) \<and>
         columns t = hn (g ! i) \<and>
         map snd (rows t) = drop (Suc i) g))"
proof (intro conjI allI impI)
  show "find_table_starting_from_columns hn g req = None \<longleftrightarrow>
      (\<forall>r\<in>set g. \<not> (\<forall>c\<in>set req. Str c \<in> set r))"
  proof -
    have "find_table_starting_from_columns hn g req = None \<longleftrightarrow> scan_rows req 0 g = None"
      by (simp add: find_table_starting_from_columns_def split: option.splits)
    then show ?thesis
      by (simp add: scan_rows_None row_has_all_iff)
  qed
next
  fix t
  assume found: "find_table_starting_from_columns hn g req = Some t"
  then obtain i where scan: "scan_rows req 0 g = Some i"
    and t: "t = read_excel_header hn g i"
    by (auto simp: find_table_starting_from_columns_def split: option.splits)
  from scan_rows_Some [OF scan] have "i < length g" "row_has_all req (g ! i)"
    "\<forall>j < i. \<not> row_has_all req (g ! j)" by auto
  moreover have "columns t = hn (g ! i)" by (simp add: t read_excel_header_def)
  moreover have "map snd (rows t) = drop (Suc i) g" by (simp add: t rows_read_excel_header)
  ultimately show "\<exists>i < length g.
         (\<forall>c\<in>set req. Str c \<in> set (g ! i)) \<and>
         (\<forall>j < i. \<not> (\<forall>c\<in>set req. Str c \<in> set (g ! j))) \<and>
         columns t = hn (g ! i) \<and>
         map snd (rows t) = drop (Suc i) g"
    by (auto simp: row_has_all_iff)
qed

theorem find_table_topmost_header_witness:
  "find_table_starting_from_columns text_names sheet [''Naam'', ''Status''] =
     Some \<lparr>columns = [''Status'', ''Naam'', ''OH-order''],
           rows = [(0, [Str ''OPEN'', Str ''Anna'', Num 102]),
                   (1, [Str ''Naam'', Str ''Status'', Str ''Totaal''])]\<rparr> \<and>
   (\<exists>i < length sheet.
      (\<forall>c\<in>set [''Naam'', ''Status'']. Str c \<in> set (sheet ! i)) \<and>
      (\<forall>j < i. \<not> (\<forall>c\<in>set [''Naam'', ''Status'']. Str c \<in> set (sheet ! j))) \<and>
      [''Status'', ''Naam'', ''OH-order''] = text_names (sheet ! i) \<and>
      [[Str ''OPEN'', Str ''Anna'', Num 102], [Str ''Naam'', Str ''Status'', Str ''Totaal'']] =
        drop (Suc i) sheet)"
proof -
  let ?t = "\<lparr>columns = [''Status'', ''Naam'', ''OH-order''],
           rows = [(0, [Str ''OPEN'', Str ''Anna'', Num 102]),
                   (1, [Str ''Naam'', Str ''Status'', Str ''Totaal''])]\<rparr>"
  have found: "find_table_starting_from_columns text_names sheet [''Naam'', ''Status''] = Some ?t"
    by (simp add: find_table_starting_from_columns_def row_has_all_def read_excel_header_def
          text_names_def sheet_def)
  from find_table_topmost_header [of text_names sheet "[''Naam'', ''Status'']"] found
  have "\<exists>i < length sheet.
      (\<forall>c\<in>set [''Naam'', ''Status'']. Str c \<in> set (sheet ! i)) \<and>
      (\<forall>j < i. \<not> (\<forall>c\<in>set [''Naam'', ''Status'']. Str c \<in> set (sheet ! j))) \<and>
      columns ?t = text_names (sheet ! i) \<and> map snd (rows ?t) = drop (Suc i) sheet"
    by blast
  then have "\<exists>i < length sheet.
      (\<forall>c\<in>set [''Naam'', ''Status'']. Str c \<in> set (sheet ! i)) \<and>
      (\<forall>j < i. \<not> (\<forall>c\<in>set [''Naam'', ''Status'']. Str c \<in> set (sheet ! j))) \<and>
      [''Status'', ''Naam'', ''OH-order''] = text_names (sheet ! i) \<and>
      [[Str ''OPEN'', Str ''Anna'', Num 102], [Str ''Naam'', Str ''Status'', Str ''Totaal'']] =
        drop (Suc i) sheet"
    by simp
  with found show ?thesis by (rule conjI)
qed

section \<open>Properties of the filter\<close>







lemma cell_of_nth:
  "distinct cols \<Longrightarrow> length cells = length cols \<Longrightarrow> i < length cols \<Longrightarrow>
     cell_of cols cells (cols ! i) = cells ! i"
  by (simp add: cell_of_def map_of_zip_nth)

lemma map_cell_of_id:
  "distinct cols \<Longrightarrow> length cells = length cols \<Longrightarrow> map (cell_of cols cells) cols = cells"
  by (rule nth_equalityI) (simp_all add: cell_of_nth)































section \<open>Properties of the aggregator\<close>





lemma unique_Nil_iff: "unique xs = [] \<longleftrightarrow> xs = []"
  by (cases xs) (simp_all add: unique_def)









text \<open>
  Claim C8, as the code has it. With an empty list of selected columns the projection
  has no column \<^verbatim>\<open>Naam\<close> to group by: grouping per assignee raises the error for a
  missing column, on every table. Only without grouping does the call return, with
  the projection on no columns and no groups.
\<close>

theorem process_filtered_data_no_columns:
  "process_filtered_data df [] True = Inl (KeyError ''Naam'') \<and>
   process_filtered_data df [] False =
     Inr (\<lparr>columns = [], rows = map (\<lambda>r. (fst r, [])) (rows df)\<rparr>, None)"
  by (simp add: process_filtered_data_def project_def column_def)

text \<open>The claim as stated (the call succeeds) fails on the filtered example orders.\<close>

theorem process_filtered_data_no_columns_counterexample:
  "process_filtered_data open_orders [] True = Inl (KeyError ''Naam'')"
  by (simp add: process_filtered_data_def project_def column_def)

section \<open>Column names after the normalization\<close>





section \<open>Properties of the comparison\<close>

lemma columns_select_rows: "columns (select_rows df m) = columns df"
  by (simp add: select_rows_def)

lemma compare_row_missing_column:
  assumes "ob \<notin> set (columns cur) \<or> ob \<notin> set (columns prev)"
  shows "compare_row fmt ob cur prev cn pn name = Inl (KeyError ob)"
proof (cases "ob \<in> set (columns cur)")
  case True
  with assms have "ob \<notin> set (columns prev)" by simp
  with True show ?thesis
    by (simp add: compare_row_def Let_def column_def columns_select_rows)
next
  case False
  then show ?thesis
    by (simp add: compare_row_def Let_def column_def columns_select_rows)
qed

text \<open>
  Claim C10, as the code has it. The identifier column is chosen from the column names
  of the current table alone, and the fallback name is not checked. When the chosen
  column is absent from the current or from the previous table (both having the column
  \<^verbatim>\<open>Naam\<close>), the comparison raises the missing-column error for it as soon as one of the
  tables has a row; when neither table has a row, the loop body never runs and the
  comparison returns the empty result.
\<close>

theorem compare_missing_identifier_column:
  assumes Nc: "''Naam'' \<in> set (columns cur)" and Np: "''Naam'' \<in> set (columns prev)"
    and absent: "select_ob_col (columns cur) \<notin> set (columns cur) \<or>
                 select_ob_col (columns cur) \<notin> set (columns prev)"
  shows "(rows cur = [] \<and> rows prev = [] \<longrightarrow>
            compare_tasks_grouped_by_name fmt cur prev = Inr []) \<and>
         (rows cur \<noteq> [] \<or> rows prev \<noteq> [] \<longrightarrow>
            compare_tasks_grouped_by_name fmt cur prev =
              Inl (KeyError (select_ob_col (columns cur))))"
proof (intro conjI impI)
  assume "rows cur = [] \<and> rows prev = []"
  then show "compare_tasks_grouped_by_name fmt cur prev = Inr []"
    using Nc Np by (simp add: compare_tasks_grouped_by_name_def column_def unique_def)
next
  assume ne: "rows cur \<noteq> [] \<or> rows prev \<noteq> []"
  let ?cn = "map (\<lambda>r. cell_of (columns cur) (snd r) ''Naam'') (rows cur)"
  let ?pn = "map (\<lambda>r. cell_of (columns prev) (snd r) ''Naam'') (rows prev)"
  from ne have "unique (?cn @ ?pn) \<noteq> []" by (simp add: unique_Nil_iff)
  then obtain name names where u: "unique (?cn @ ?pn) = name # names"
    by (cases "unique (?cn @ ?pn)") auto
  show "compare_tasks_grouped_by_name fmt cur prev = Inl (KeyError (select_ob_col (columns cur)))"
    using Nc Np
    by (simp add: compare_tasks_grouped_by_name_def column_def Let_def u
          compare_row_missing_column [OF absent])
qed

theorem compare_missing_identifier_column_witness:
  "''Naam'' \<in> set (columns obligo_orders) \<and> ''Naam'' \<in> set (columns last_week) \<and>
   select_ob_col (columns obligo_orders) = ''Obligo extern formaat'' \<and>
   ''Obligo extern formaat'' \<notin> set (columns last_week) \<and> rows obligo_orders \<noteq> [] \<and>
   compare_tasks_grouped_by_name plain_stamp obligo_orders last_week =
     Inl (KeyError ''Obligo extern formaat'')"
proof -
  have a: "''Naam'' \<in> set (columns obligo_orders)" and b: "''Naam'' \<in> set (columns last_week)"
    by (simp_all add: obligo_orders_def order_columns_def last_week_def)
  have s: "select_ob_col (columns obligo_orders) = ''Obligo extern formaat''"
    by (simp add: select_ob_col_def obligo_orders_def order_columns_def)
  have n: "''Obligo extern formaat'' \<notin> set (columns last_week)"
    by (simp add: last_week_def order_columns_def)
  have r: "rows obligo_orders \<noteq> []" by (simp add: obligo_orders_def)
  from s n have absent: "select_ob_col (columns obligo_orders) \<notin> set (columns obligo_orders) \<or>
                 select_ob_col (columns obligo_orders) \<notin> set (columns last_week)" by simp
  from compare_missing_identifier_column [OF a b absent, of plain_stamp] r s
  have "compare_tasks_grouped_by_name plain_stamp obligo_orders last_week =
     Inl (KeyError ''Obligo extern formaat'')"
    by simp
  with a b s n r show ?thesis by blast
qed

text \<open>
  The claim as stated (an error for every such pair of inputs) fails on two tables
  without rows, as the filter returns them when no order qualifies: the current table
  has the preferred identifier column, the previous one lacks it, and the comparison
  returns no rows instead of raising.
\<close>

theorem compare_missing_identifier_column_counterexample:
  "select_ob_col (columns obligo_none) = ''Obligo extern formaat'' \<and>
   ''Obligo extern formaat'' \<notin> set (columns last_week_none) \<and>
   compare_tasks_grouped_by_name plain_stamp obligo_none last_week_none = Inr []"
  by (simp add: select_ob_col_def obligo_none_def last_week_none_def order_columns_def
        compare_tasks_grouped_by_name_def column_def unique_def)






















end
